theory Spec2Isabelle
  imports Main
begin

section \<open>Platform objects consumed by \<open>minder/types.py\<close>\<close>

text \<open>
  The module wraps objects of the chat client library: guilds, members, channels and
  command contexts. The library is an external collaborator; only the attributes that
  \<open>types.py\<close> reads are modelled, as fields.
\<close>

text \<open>
  Modelled from the spec: the class \<open>discord.Guild\<close> is not among the sources. A scope
  object exposes a \<open>name\<close> and an \<open>id\<close>, which \<open>resolve\<close> reads for its warning.
\<close>

record Guild =
  guild_name :: string
  guild_id :: int

text \<open>
  Modelled from the spec: the classes behind \<open>MemberType\<close> are not among the sources. A
  member object has \<open>id\<close>, \<open>name\<close>, \<open>guild\<close> (the scope backreference, tested for
  truth by the \<open>guild\<close> property, so possibly \<open>None\<close>) and the \<open>mention\<close> string.
\<close>

record Member =
  member_id :: int
  member_name :: string
  member_guild :: "Guild option"
  member_mention :: string

text \<open>
  Modelled from the spec: the classes behind \<open>ChannelType\<close> are not among the sources. A
  channel object has \<open>id\<close>, \<open>name\<close>, \<open>guild\<close> (optional), the \<open>mention\<close> string and a
  runtime type; \<open>channel_is_DMChannel\<close> is the value of
  \<open>isinstance(channel, discord.DMChannel)\<close>.
\<close>

record Channel =
  channel_id :: int
  channel_name :: string
  channel_guild :: "Guild option"
  channel_mention :: string
  channel_is_DMChannel :: bool

text \<open>
  Modelled from the spec: \<open>commands.Context\<close> is not among the sources. A context exposes
  an accessor \<open>guild\<close> yielding its scope; the library returns \<open>None\<close> there for a
  context outside any guild.
\<close>

record Context =
  context_guild :: "Guild option"

text \<open>\<open>ContextOrGuild = Union[commands.Context, discord.Guild]\<close>\<close>

datatype ContextOrGuild = IsContext Context | IsGuild Guild

section \<open>Exceptions, provider calls and effects\<close>

text \<open>
  An exception object is its class and the text \<open>str(ex)\<close>. The test
  \<open>isinstance(ex, discord.errors.NotFound)\<close> is \<open>exn_class ex = NotFound\<close>. All
  classes are subclasses of \<open>Exception\<close>, which is what \<open>resolve\<close> catches.
\<close>

datatype exn_class = NotFound | Forbidden | HTTPException | AttributeError | RuntimeError

datatype exn = Exn (exn_class: exn_class) (exn_str: string)

text \<open>A call into the library returns a value or raises.\<close>

datatype 'a outcome = Returns 'a | Raises exn

text \<open>
  The directory provider: what \<open>guild.get_member(id)\<close> and \<open>guild.get_channel(id)\<close> do,
  for every guild object and id. It is a parameter of \<open>resolve\<close> and \<open>build\<close>.
\<close>

record Provider =
  get_member :: "Guild \<Rightarrow> int \<Rightarrow> Member option outcome"
  get_channel :: "Guild \<Rightarrow> int \<Rightarrow> Channel option outcome"

text \<open>The effects of a call, in order: provider lookups and warnings written to the log.\<close>

datatype event =
    CallGetMember Guild int
  | CallGetChannel Guild int
  | LogWarning string

text \<open>
  Modelled from the spec: the class \<open>minder.errors.MinderBotError\<close> is not among the
  sources. An error value holds what the raise sites pass: the message, the keyword
  \<open>context\<close> and the keyword \<open>base_exception\<close> (the original failure), each keyword
  \<open>None\<close> where a raise site omits it.
\<close>

datatype MinderBotError =
  MinderBotError (err_message: string) (err_context: "Context option")
    (err_base_exception: "exn option")

type_synonym 'a result = "(MinderBotError + 'a) \<times> event list"

section \<open>Python values\<close>

text \<open>\<open>str(n)\<close> for an integer, as an f-string formats \<open>{id}\<close>.\<close>

fun str_nat :: "nat \<Rightarrow> string" where
  "str_nat n =
     (if n < 10 then [char_of (48 + n)]
      else str_nat (n div 10) @ [char_of (48 + n mod 10)])"

declare str_nat.simps [simp del]

definition str_int :: "int \<Rightarrow> string" where
  "str_int i = (if i < 0 then CHR ''-'' # str_nat (nat (- i)) else str_nat (nat i))"

text \<open>
  Truth of an \<open>Optional[str]\<close>: \<open>not name\<close> holds for \<open>None\<close> and for the empty string.
\<close>

definition not_name :: "string option \<Rightarrow> bool" where
  "not_name name = (case name of None \<Rightarrow> True | Some s \<Rightarrow> s = [])"

text \<open>The double quote, which the messages contain.\<close>

definition dq :: string where
  "dq = [CHR 0x22]"

text \<open>The text of the \<open>AttributeError\<close> raised by a method call on \<open>None\<close>.\<close>

definition NoneType_has_no_attribute :: "string \<Rightarrow> exn" where
  "NoneType_has_no_attribute attr =
     Exn AttributeError ([CHR 0x27] @ ''NoneType'' @ [CHR 0x27] @ '' object has no attribute ''
                           @ [CHR 0x27] @ attr @ [CHR 0x27])"

text \<open>
  The scope of a \<open>context_or_guild\<close> argument:
  \<open>context_or_guild if not isinstance(context_or_guild, commands.Context) else context_or_guild.guild\<close>.
\<close>

definition guild_of :: "ContextOrGuild \<Rightarrow> Guild option" where
  "guild_of cg = (case cg of IsGuild g \<Rightarrow> Some g | IsContext c \<Rightarrow> context_guild c)"

text \<open>
  The context passed to the error:
  \<open>context_or_guild if isinstance(context_or_guild, commands.Context) else None\<close>.
\<close>

definition context_of :: "ContextOrGuild \<Rightarrow> Context option" where
  "context_of cg = (case cg of IsContext c \<Rightarrow> Some c | IsGuild g \<Rightarrow> None)"

section \<open>The errors raised\<close>

text \<open>
  The module raises \<open>MinderBotError\<close> at three kinds of site. \<open>kind\<close> is the word the
  message uses for the entity: \<open>user\<close>, \<open>member\<close> or \<open>channel\<close>.
\<close>

text \<open>No guild or context and no name (lines 56 and 121).\<close>

definition no_guild_error :: "string \<Rightarrow> int \<Rightarrow> MinderBotError" where
  "no_guild_error kind i =
     MinderBotError
       (''No guild/context provided when looking up '' @ kind @ '' '' @ dq @ str_int i @ dq
          @ '' with no provided username. Provide '' @ dq @ ''name'' @ dq @ '' explicitly'')
       None None"

text \<open>The lookup found nothing and no name was given (lines 64 and 129).\<close>

definition unresolved_error :: "string \<Rightarrow> int \<Rightarrow> Context option \<Rightarrow> MinderBotError" where
  "unresolved_error kind i ctx =
     MinderBotError
       (''Failed to resolve '' @ kind @ '' ID '' @ str_int i @ '' and no '' @ dq @ ''name'' @ dq
          @ '' provided.'')
       ctx None"

text \<open>The lookup raised something other than \<open>NotFound\<close> (lines 76 and 144).\<close>

definition lookup_error :: "string \<Rightarrow> int \<Rightarrow> exn \<Rightarrow> MinderBotError" where
  "lookup_error kind i ex =
     MinderBotError
       (''General error lookup up '' @ kind @ '' ID '' @ str_int i @ '': '' @ exn_str ex)
       None (Some ex)"

text \<open>The warning logged when the lookup raised \<open>NotFound\<close> (lines 78 and 146).\<close>

definition not_found_warning :: "string \<Rightarrow> int \<Rightarrow> Guild \<Rightarrow> event" where
  "not_found_warning kind i g =
     LogWarning (''No '' @ kind @ '' found for ID '' @ str_int i @ '' on guild '' @ dq
                   @ guild_name g @ dq @ '' (ID '' @ str_int (guild_id g)
                   @ ''). Not resolving.'')"


section \<open>\<open>DiscordMember\<close>\<close>

text \<open>
  The dataclass declares the fields \<open>id\<close> and \<open>name\<close>, and two pseudo-fields
  \<open>_guild\<close> and \<open>_member\<close> of type \<open>InitVar\<close> with the default \<open>None\<close>. The record
  holds what the four attribute reads \<open>self.id\<close>, \<open>self.name\<close>, \<open>self._guild\<close>,
  \<open>self._member\<close> give on an object.
\<close>

record DiscordMember =
  dm_id :: int
  dm_name :: string
  dm__guild :: "Guild option"
  dm__member :: "Member option"

text \<open>
  The generated \<open>__init__\<close>. An \<open>InitVar\<close> pseudo-field is a parameter of \<open>__init__\<close>
  that is handed to \<open>__post_init__\<close> and is not stored on the object (the library manual:
  init-only fields ``are added as parameters to the generated \<open>__init__()\<close> method, and are
  passed to the optional \<open>__post_init__()\<close> method. They are not otherwise used by
  dataclasses''); the standard library generates
  \<^verbatim>\<open>
  def __init__(self, id, name, _guild=None, _member=None):
      self.id = id
      self.name = name
  \<close>
  The class defines no \<open>__post_init__\<close>, so both values are discarded, and a later read of
  \<open>self._guild\<close> or \<open>self._member\<close> finds the class attribute, the default \<open>None\<close>.
  The annotations are strings (\<open>from __future__ import annotations\<close>); the dataclass
  decorator recognises \<open>InitVar[...]\<close> in that form too.
\<close>

definition DiscordMember_init ::
  "int \<Rightarrow> string \<Rightarrow> Guild option \<Rightarrow> Member option \<Rightarrow> DiscordMember" where
  "DiscordMember_init i n g m =
     \<lparr>dm_id = i, dm_name = n, dm__guild = None, dm__member = None\<rparr>"

definition DiscordMember_mention :: "DiscordMember \<Rightarrow> string" where
  "DiscordMember_mention self =
     (case dm__member self of Some m \<Rightarrow> member_mention m | None \<Rightarrow> dm_name self)"

definition DiscordMember_guild :: "DiscordMember \<Rightarrow> Guild option" where
  "DiscordMember_guild self =
     (case dm__guild self of
        Some g \<Rightarrow> Some g
      | None \<Rightarrow>
          (case dm__member self of
             Some m \<Rightarrow> (case member_guild m of Some g \<Rightarrow> Some g | None \<Rightarrow> None)
           | None \<Rightarrow> None))"

definition DiscordMember_member :: "DiscordMember \<Rightarrow> Member option" where
  "DiscordMember_member self = dm__member self"

text \<open>
  \<open>resolve\<close>. The call \<open>guild.get_member(id)\<close> is inside the \<open>try\<close>; when
  \<open>guild\<close> is \<open>None\<close> (a context without a guild) the attribute lookup itself raises
  \<open>AttributeError\<close> there, and no provider call is made.
\<close>

definition DiscordMember_resolve :: "Provider \<Rightarrow> int \<Rightarrow> Guild option \<Rightarrow> Member option result" where
  "DiscordMember_resolve p i guild =
     (case guild of
        None \<Rightarrow>
          (Inl (lookup_error ''member'' i (NoneType_has_no_attribute ''get_member'')), [])
      | Some g \<Rightarrow>
          (case get_member p g i of
             Returns member \<Rightarrow> (Inr member, [CallGetMember g i])
           | Raises ex \<Rightarrow>
               if exn_class ex \<noteq> NotFound
               then (Inl (lookup_error ''member'' i ex), [CallGetMember g i])
               else (Inr None, [CallGetMember g i, not_found_warning ''member'' i g])))"

text \<open>
  \<open>build\<close>. The tests \<open>not context_or_guild\<close> and \<open>not member\<close> are tests for
  \<open>None\<close>: the library's context, guild and member classes define neither \<open>__bool__\<close>
  nor \<open>__len__\<close>, so every such object is true. Where the source uses \<open>name\<close> as the
  record's name, \<open>not name\<close> has been false, so \<open>name\<close> is a string and \<open>the name\<close> is it.
\<close>

definition DiscordMember_build ::
  "Provider \<Rightarrow> int \<Rightarrow> string option \<Rightarrow> ContextOrGuild option \<Rightarrow> DiscordMember result" where
  "DiscordMember_build p i name context_or_guild =
     (case context_or_guild of
        None \<Rightarrow>
          (if not_name name
           then (Inl (no_guild_error ''user'' i), [])
           else (Inr (DiscordMember_init i (the name) None None), []))
      | Some cg \<Rightarrow>
          (let guild = guild_of cg
           in case DiscordMember_resolve p i guild of
                (Inl e, evs) \<Rightarrow> (Inl e, evs)
              | (Inr member, evs) \<Rightarrow>
                  (if not_name name
                   then (case member of
                           None \<Rightarrow> (Inl (unresolved_error ''member'' i (context_of cg)), evs)
                         | Some m \<Rightarrow>
                             (Inr (DiscordMember_init i (member_name m) guild member), evs))
                   else (Inr (DiscordMember_init i (the name) guild member), evs))))"

definition DiscordMember_from_member :: "Member \<Rightarrow> DiscordMember" where
  "DiscordMember_from_member member =
     DiscordMember_init (member_id member) (member_name member) (member_guild member)
       (Some member)"

section \<open>\<open>DiscordChannel\<close>\<close>

text \<open>
  The dataclass declares the fields \<open>id\<close>, \<open>name\<close> and \<open>is_dm\<close>, and the
  \<open>InitVar\<close> pseudo-fields \<open>_guild\<close> and \<open>_channel\<close> with the default \<open>None\<close>.
  The record holds what the attribute reads give on an object.
\<close>

record DiscordChannel =
  dc_id :: int
  dc_name :: string
  dc_is_dm :: "bool option"
  dc__guild :: "Guild option"
  dc__channel :: "Channel option"

text \<open>
  The generated \<open>__init__\<close>: \<open>is_dm\<close> is a field and is stored; the two \<open>InitVar\<close>
  values are discarded as in \<open>DiscordMember\<close>, the class having no \<open>__post_init__\<close>.
\<close>

definition DiscordChannel_init ::
  "int \<Rightarrow> string \<Rightarrow> bool option \<Rightarrow> Guild option \<Rightarrow> Channel option \<Rightarrow> DiscordChannel" where
  "DiscordChannel_init i n d g c =
     \<lparr>dc_id = i, dc_name = n, dc_is_dm = d, dc__guild = None, dc__channel = None\<rparr>"

definition DiscordChannel_mention :: "DiscordChannel \<Rightarrow> string" where
  "DiscordChannel_mention self =
     (case dc__channel self of Some c \<Rightarrow> channel_mention c | None \<Rightarrow> dc_name self)"

definition DiscordChannel_guild :: "DiscordChannel \<Rightarrow> Guild option" where
  "DiscordChannel_guild self =
     (case dc__guild self of
        Some g \<Rightarrow> Some g
      | None \<Rightarrow>
          (case dc__channel self of
             Some c \<Rightarrow> (case channel_guild c of Some g \<Rightarrow> Some g | None \<Rightarrow> None)
           | None \<Rightarrow> None))"

definition DiscordChannel_channel :: "DiscordChannel \<Rightarrow> Channel option" where
  "DiscordChannel_channel self = dc__channel self"

definition DiscordChannel_resolve ::
  "Provider \<Rightarrow> int \<Rightarrow> Guild option \<Rightarrow> Channel option result" where
  "DiscordChannel_resolve p i guild =
     (case guild of
        None \<Rightarrow>
          (Inl (lookup_error ''channel'' i (NoneType_has_no_attribute ''get_channel'')), [])
      | Some g \<Rightarrow>
          (case get_channel p g i of
             Returns channel \<Rightarrow> (Inr channel, [CallGetChannel g i])
           | Raises ex \<Rightarrow>
               if exn_class ex \<noteq> NotFound
               then (Inl (lookup_error ''channel'' i ex), [CallGetChannel g i])
               else (Inr None, [CallGetChannel g i, not_found_warning ''channel'' i g])))"

text \<open>
  Lines 133 to 134:
  \<open>if is_dm is None and channel: is_dm = isinstance(channel, discord.DMChannel)\<close>.
\<close>

definition derive_is_dm :: "bool option \<Rightarrow> Channel option \<Rightarrow> bool option" where
  "derive_is_dm is_dm channel =
     (case is_dm of
        Some d \<Rightarrow> Some d
      | None \<Rightarrow> (case channel of Some c \<Rightarrow> Some (channel_is_DMChannel c) | None \<Rightarrow> None))"

definition DiscordChannel_build ::
  "Provider \<Rightarrow> int \<Rightarrow> string option \<Rightarrow> bool option \<Rightarrow> ContextOrGuild option
     \<Rightarrow> DiscordChannel result" where
  "DiscordChannel_build p i name is_dm context_or_guild =
     (case context_or_guild of
        None \<Rightarrow>
          (if not_name name
           then (Inl (no_guild_error ''channel'' i), [])
           else (Inr (DiscordChannel_init i (the name) (derive_is_dm is_dm None) None None), []))
      | Some cg \<Rightarrow>
          (let guild = guild_of cg
           in case DiscordChannel_resolve p i guild of
                (Inl e, evs) \<Rightarrow> (Inl e, evs)
              | (Inr channel, evs) \<Rightarrow>
                  (if not_name name
                   then (case channel of
                           None \<Rightarrow> (Inl (unresolved_error ''channel'' i (context_of cg)), evs)
                         | Some c \<Rightarrow>
                             (Inr (DiscordChannel_init i (channel_name c)
                                     (derive_is_dm is_dm channel) guild channel), evs))
                   else (Inr (DiscordChannel_init i (the name) (derive_is_dm is_dm channel)
                                guild channel), evs))))"

definition DiscordChannel_from_channel :: "Channel \<Rightarrow> DiscordChannel" where
  "DiscordChannel_from_channel channel =
     DiscordChannel_init (channel_id channel) (channel_name channel)
       (Some (channel_is_DMChannel channel)) None (Some channel)"

section \<open>Notions used by the properties\<close>

text \<open>
  The lookup signals that nothing was found: the provider call raises \<open>NotFound\<close>, or it
  returns \<open>None\<close> (as the library's cache lookups do).
\<close>

definition signals_not_found :: "'a option outcome \<Rightarrow> bool" where
  "signals_not_found r =
     (case r of
        Returns None \<Rightarrow> True
      | Returns (Some x) \<Rightarrow> False
      | Raises ex \<Rightarrow> exn_class ex = NotFound)"

subsection \<open>Example objects\<close>

definition guildX :: Guild where
  "guildX = \<lparr>guild_name = ''guildX'', guild_id = 7\<rparr>"

definition ctxX :: Context where
  "ctxX = \<lparr>context_guild = Some guildX\<rparr>"

definition alice :: Member where
  "alice = \<lparr>member_id = 42, member_name = ''alice'', member_guild = Some guildX,
            member_mention = ''<@42>''\<rparr>"

definition general :: Channel where
  "general = \<lparr>channel_id = 5, channel_name = ''general'', channel_guild = Some guildX,
              channel_mention = ''<#5>'', channel_is_DMChannel = False\<rparr>"

definition channelY :: Channel where
  "channelY = \<lparr>channel_id = 9, channel_name = ''alice'', channel_guild = None,
               channel_mention = ''<#9>'', channel_is_DMChannel = True\<rparr>"

text \<open>
  A directory that knows member 42 and channel 5. For any other id \<open>get_member\<close> returns
  \<open>None\<close> and \<open>get_channel\<close> raises \<open>NotFound\<close>.
\<close>

definition directory :: Provider where
  "directory =
     \<lparr>get_member = (\<lambda>g i. if i = 42 then Returns (Some alice) else Returns None),
      get_channel = (\<lambda>g i. if i = 5 then Returns (Some general)
                             else Raises (Exn NotFound ''404 Not Found''))\<rparr>"

text \<open>A directory whose every lookup fails with an authorization failure.\<close>

definition locked :: Provider where
  "locked =
     \<lparr>get_member = (\<lambda>g i. Raises (Exn Forbidden ''403 Forbidden'')),
      get_channel = (\<lambda>g i. Raises (Exn Forbidden ''403 Forbidden''))\<rparr>"

text \<open>A live member whose name is the empty string, and a directory that returns it.\<close>

definition nameless :: Member where
  "nameless = \<lparr>member_id = 42, member_name = [], member_guild = Some guildX,
               member_mention = ''<@42>''\<rparr>"

definition blank_directory :: Provider where
  "blank_directory =
     \<lparr>get_member = (\<lambda>g i. Returns (Some nameless)),
      get_channel = (\<lambda>g i. Returns None)\<rparr>"

section \<open>Properties\<close>

lemmas build_defs =
  DiscordMember_build_def DiscordChannel_build_def
  DiscordMember_resolve_def DiscordChannel_resolve_def Let_def

lemma not_name_simps:
  "not_name None = True"
  "not_name (Some []) = True"
  "n \<noteq> [] \<Longrightarrow> not_name (Some n) = False"
  by (simp_all add: not_name_def)

subsection \<open>What \<open>resolve\<close> returns\<close>

lemma resolve_member_not_found:
  "signals_not_found (get_member p g i) \<Longrightarrow> fst (DiscordMember_resolve p i (Some g)) = Inr None"
  by (auto simp: DiscordMember_resolve_def signals_not_found_def
           split: outcome.splits option.splits)

lemma resolve_channel_not_found:
  "signals_not_found (get_channel p g i) \<Longrightarrow> fst (DiscordChannel_resolve p i (Some g)) = Inr None"
  by (auto simp: DiscordChannel_resolve_def signals_not_found_def
           split: outcome.splits option.splits)

lemma resolve_member_found:
  "get_member p g i = Returns (Some m) \<Longrightarrow>
   DiscordMember_resolve p i (Some g) = (Inr (Some m), [CallGetMember g i])"
  by (simp add: DiscordMember_resolve_def)

lemma resolve_channel_found:
  "get_channel p g i = Returns (Some c) \<Longrightarrow>
   DiscordChannel_resolve p i (Some g) = (Inr (Some c), [CallGetChannel g i])"
  by (simp add: DiscordChannel_resolve_def)

subsection \<open>Failure when nothing is found and no name is given\<close>

text \<open>
  Claim C1. Let \<open>build\<close> be called with a scope context whose scope is \<open>g\<close> and without
  a name (\<open>None\<close>, or the empty string, which \<open>not name\<close> treats alike). If the lookup of
  the id in \<open>g\<close> signals that nothing was found, then \<open>build\<close> returns no record: it
  raises the error of lines 64 and 129, which carries the context when the scope
  context was one. This holds for the member and for the channel variant.
\<close>

theorem build_unresolved_without_name:
  assumes "guild_of cg = Some g" and "not_name name"
  shows "(signals_not_found (get_member p g i) \<longrightarrow>
            fst (DiscordMember_build p i name (Some cg))
              = Inl (unresolved_error ''member'' i (context_of cg)))
       \<and> (signals_not_found (get_channel p g i) \<longrightarrow>
            fst (DiscordChannel_build p i name is_dm (Some cg))
              = Inl (unresolved_error ''channel'' i (context_of cg)))"
  using assms
  by (auto simp: build_defs signals_not_found_def split: outcome.splits option.splits)

text \<open>
  Id 7 is unknown to \<open>directory\<close>: the member lookup returns \<open>None\<close>, the channel lookup
  raises \<open>NotFound\<close>. With the context \<open>ctxX\<close> and no name both builds fail, and the error
  carries \<open>ctxX\<close>.
\<close>

theorem build_unresolved_without_name_witness:
  "guild_of (IsContext ctxX) = Some guildX \<and> not_name None
 \<and> signals_not_found (get_member directory guildX 7)
 \<and> signals_not_found (get_channel directory guildX 7)
 \<and> fst (DiscordMember_build directory 7 None (Some (IsContext ctxX)))
      = Inl (unresolved_error ''member'' 7 (Some ctxX))
 \<and> fst (DiscordChannel_build directory 7 None None (Some (IsContext ctxX)))
      = Inl (unresolved_error ''channel'' 7 (Some ctxX))"
proof -
  have scope: "guild_of (IsContext ctxX) = Some guildX"
    by (simp add: guild_of_def ctxX_def)
  have absent: "not_name None"
    by (simp add: not_name_def)
  have nf: "signals_not_found (get_member directory guildX 7)"
           "signals_not_found (get_channel directory guildX 7)"
    by (simp_all add: signals_not_found_def directory_def)
  from build_unresolved_without_name [OF scope absent, of directory 7 None] nf scope absent
  show ?thesis
    by (simp add: context_of_def)
qed

subsection \<open>Success when nothing is found but a name is given\<close>

text \<open>
  Claim C2. Let \<open>build\<close> be called with a scope context whose scope is \<open>g\<close> and with a
  name \<open>n\<close> that is not empty. If the lookup of the id in \<open>g\<close> signals that nothing was
  found, then \<open>build\<close> succeeds, the record's \<open>mention\<close> is \<open>n\<close> and its live reference
  is absent. This holds for the member and for the channel variant.
\<close>

theorem build_not_found_with_name:
  assumes "guild_of cg = Some g" and "n \<noteq> []"
  shows "(signals_not_found (get_member p g i) \<longrightarrow>
            (\<exists>r. fst (DiscordMember_build p i (Some n) (Some cg)) = Inr r
                 \<and> DiscordMember_mention r = n \<and> DiscordMember_member r = None))
       \<and> (signals_not_found (get_channel p g i) \<longrightarrow>
            (\<exists>r. fst (DiscordChannel_build p i (Some n) is_dm (Some cg)) = Inr r
                 \<and> DiscordChannel_mention r = n \<and> DiscordChannel_channel r = None))"
  using assms
  by (auto simp: build_defs signals_not_found_def not_name_def
                 DiscordMember_init_def DiscordMember_mention_def DiscordMember_member_def
                 DiscordChannel_init_def DiscordChannel_mention_def DiscordChannel_channel_def
           split: outcome.splits option.splits)

text \<open>Id 7 again, now with the name \<open>bob\<close> and the guild itself as scope context.\<close>

theorem build_not_found_with_name_witness:
  "guild_of (IsGuild guildX) = Some guildX \<and> ''bob'' \<noteq> []
 \<and> signals_not_found (get_member directory guildX 7)
 \<and> signals_not_found (get_channel directory guildX 7)
 \<and> (\<exists>r. fst (DiscordMember_build directory 7 (Some ''bob'') (Some (IsGuild guildX))) = Inr r
        \<and> DiscordMember_mention r = ''bob'' \<and> DiscordMember_member r = None)
 \<and> (\<exists>r. fst (DiscordChannel_build directory 7 (Some ''bob'') None (Some (IsGuild guildX))) = Inr r
        \<and> DiscordChannel_mention r = ''bob'' \<and> DiscordChannel_channel r = None)"
proof -
  have scope: "guild_of (IsGuild guildX) = Some guildX"
    by (simp add: guild_of_def)
  have named: "''bob'' \<noteq> []"
    by simp
  have nf: "signals_not_found (get_member directory guildX 7)"
           "signals_not_found (get_channel directory guildX 7)"
    by (simp_all add: signals_not_found_def directory_def)
  from build_not_found_with_name [OF scope named, of directory 7 None] nf scope
  show ?thesis
    by simp
qed

subsection \<open>Failures of the provider other than \<open>NotFound\<close>\<close>

text \<open>
  Claim C4. If the provider call for the id in the guild \<open>g\<close> raises an exception \<open>ex\<close>
  that is not a \<open>NotFound\<close>, then \<open>resolve\<close> raises the error of lines 76 and 144, whose
  \<open>base_exception\<close> is \<open>ex\<close> itself, after the one provider call; and \<open>build\<close>, called
  with any name and a scope context whose scope is \<open>g\<close>, returns that same error and
  no record. This holds for the member and for the channel variant.
\<close>

theorem resolve_wraps_provider_failure:
  assumes "exn_class ex \<noteq> NotFound" and "guild_of cg = Some g"
  shows "(get_member p g i = Raises ex \<longrightarrow>
            DiscordMember_resolve p i (Some g)
              = (Inl (lookup_error ''member'' i ex), [CallGetMember g i])
          \<and> err_base_exception (lookup_error ''member'' i ex) = Some ex
          \<and> DiscordMember_build p i name (Some cg)
              = (Inl (lookup_error ''member'' i ex), [CallGetMember g i]))
       \<and> (get_channel p g i = Raises ex \<longrightarrow>
            DiscordChannel_resolve p i (Some g)
              = (Inl (lookup_error ''channel'' i ex), [CallGetChannel g i])
          \<and> err_base_exception (lookup_error ''channel'' i ex) = Some ex
          \<and> DiscordChannel_build p i name is_dm (Some cg)
              = (Inl (lookup_error ''channel'' i ex), [CallGetChannel g i]))"
  using assms
  by (auto simp: build_defs lookup_error_def)

text \<open>
  The scenario of the specification: \<open>build(id=42, name=None, scope_context=guildX)\<close>
  where the lookup raises an authorization failure.
\<close>

theorem resolve_wraps_provider_failure_witness:
  "exn_class (Exn Forbidden ''403 Forbidden'') \<noteq> NotFound
 \<and> guild_of (IsGuild guildX) = Some guildX
 \<and> get_member locked guildX 42 = Raises (Exn Forbidden ''403 Forbidden'')
 \<and> get_channel locked guildX 42 = Raises (Exn Forbidden ''403 Forbidden'')
 \<and> fst (DiscordMember_resolve locked 42 (Some guildX))
      = Inl (lookup_error ''member'' 42 (Exn Forbidden ''403 Forbidden''))
 \<and> err_base_exception (lookup_error ''member'' 42 (Exn Forbidden ''403 Forbidden''))
      = Some (Exn Forbidden ''403 Forbidden'')
 \<and> fst (DiscordMember_build locked 42 None (Some (IsGuild guildX)))
      = Inl (lookup_error ''member'' 42 (Exn Forbidden ''403 Forbidden''))
 \<and> fst (DiscordChannel_resolve locked 42 (Some guildX))
      = Inl (lookup_error ''channel'' 42 (Exn Forbidden ''403 Forbidden''))
 \<and> fst (DiscordChannel_build locked 42 None None (Some (IsGuild guildX)))
      = Inl (lookup_error ''channel'' 42 (Exn Forbidden ''403 Forbidden''))"
proof -
  have other: "exn_class (Exn Forbidden ''403 Forbidden'') \<noteq> NotFound"
    by simp
  have scope: "guild_of (IsGuild guildX) = Some guildX"
    by (simp add: guild_of_def)
  have raises: "get_member locked guildX 42 = Raises (Exn Forbidden ''403 Forbidden'')"
               "get_channel locked guildX 42 = Raises (Exn Forbidden ''403 Forbidden'')"
    by (simp_all add: locked_def)
  from resolve_wraps_provider_failure [OF other scope, of locked 42 None None] raises scope
  show ?thesis
    by simp
qed

subsection \<open>Neither scope nor name\<close>



subsection \<open>The scope accessor\<close>

text \<open>
  Claim C8. On every record, whatever its attributes hold, the \<open>guild\<close> property returns
  the stored scope \<open>_guild\<close> when there is one; otherwise, when there is a live reference,
  the scope backreference of the live object (which may be absent); otherwise nothing.
  This holds for the member and for the channel variant.
\<close>

theorem guild_accessor_priority:
  "(dm__guild r = Some g \<longrightarrow> DiscordMember_guild r = Some g)
 \<and> (dm__guild r = None \<and> dm__member r = Some m \<longrightarrow> DiscordMember_guild r = member_guild m)
 \<and> (dm__guild r = None \<and> dm__member r = None \<longrightarrow> DiscordMember_guild r = None)
 \<and> (dc__guild rc = Some g \<longrightarrow> DiscordChannel_guild rc = Some g)
 \<and> (dc__guild rc = None \<and> dc__channel rc = Some c \<longrightarrow> DiscordChannel_guild rc = channel_guild c)
 \<and> (dc__guild rc = None \<and> dc__channel rc = None \<longrightarrow> DiscordChannel_guild rc = None)"
  by (auto simp: DiscordMember_guild_def DiscordChannel_guild_def split: option.splits)

text \<open>
  Three attribute states of each variant: a stored scope (next to a live object of no
  scope), no stored scope but a live object, and neither.
\<close>

theorem guild_accessor_priority_witness:
  "DiscordMember_guild
     \<lparr>dm_id = 42, dm_name = ''alice'', dm__guild = Some guildX,
      dm__member = Some (alice\<lparr>member_guild := None\<rparr>)\<rparr> = Some guildX
 \<and> DiscordMember_guild
     \<lparr>dm_id = 42, dm_name = ''alice'', dm__guild = None, dm__member = Some alice\<rparr> = Some guildX
 \<and> DiscordMember_guild
     \<lparr>dm_id = 42, dm_name = ''alice'', dm__guild = None, dm__member = None\<rparr> = None
 \<and> DiscordChannel_guild
     \<lparr>dc_id = 9, dc_name = ''alice'', dc_is_dm = Some True, dc__guild = Some guildX,
      dc__channel = Some channelY\<rparr> = Some guildX
 \<and> DiscordChannel_guild
     \<lparr>dc_id = 5, dc_name = ''general'', dc_is_dm = None, dc__guild = None,
      dc__channel = Some general\<rparr> = Some guildX
 \<and> DiscordChannel_guild
     \<lparr>dc_id = 9, dc_name = ''alice'', dc_is_dm = None, dc__guild = None,
      dc__channel = Some channelY\<rparr> = None
 \<and> DiscordChannel_guild
     \<lparr>dc_id = 5, dc_name = ''general'', dc_is_dm = None, dc__guild = None,
      dc__channel = None\<rparr> = None"
  using
    guild_accessor_priority
      [of "\<lparr>dm_id = 42, dm_name = ''alice'', dm__guild = Some guildX,
            dm__member = Some (alice\<lparr>member_guild := None\<rparr>)\<rparr>"
          guildX alice
          "\<lparr>dc_id = 9, dc_name = ''alice'', dc_is_dm = Some True, dc__guild = Some guildX,
            dc__channel = Some channelY\<rparr>"
          channelY]
    guild_accessor_priority
      [of "\<lparr>dm_id = 42, dm_name = ''alice'', dm__guild = None, dm__member = Some alice\<rparr>"
          guildX alice
          "\<lparr>dc_id = 5, dc_name = ''general'', dc_is_dm = None, dc__guild = None,
            dc__channel = Some general\<rparr>"
          general]
    guild_accessor_priority
      [of "\<lparr>dm_id = 42, dm_name = ''alice'', dm__guild = None, dm__member = None\<rparr>"
          guildX alice
          "\<lparr>dc_id = 5, dc_name = ''general'', dc_is_dm = None, dc__guild = None,
            dc__channel = None\<rparr>"
          general]
    guild_accessor_priority
      [of "\<lparr>dm_id = 42, dm_name = ''alice'', dm__guild = None, dm__member = None\<rparr>"
          guildX alice
          "\<lparr>dc_id = 9, dc_name = ''alice'', dc_is_dm = None, dc__guild = None,
            dc__channel = Some channelY\<rparr>"
          channelY]
  by (simp add: alice_def general_def channelY_def)

subsection \<open>The empty name\<close>

lemma build_member_success_from_live:
  "not_name name \<Longrightarrow> fst (DiscordMember_build p i name cg) = Inr r \<Longrightarrow>
   \<exists>s g m. cg = Some s \<and> guild_of s = Some g \<and> get_member p g i = Returns (Some m)
           \<and> dm_name r = member_name m"
  by (fastforce simp: build_defs DiscordMember_init_def
        split: option.splits if_splits outcome.splits)

lemma build_channel_success_from_live:
  "not_name name \<Longrightarrow> fst (DiscordChannel_build p i name is_dm cg) = Inr r \<Longrightarrow>
   \<exists>s g c. cg = Some s \<and> guild_of s = Some g \<and> get_channel p g i = Returns (Some c)
           \<and> dc_name r = channel_name c"
  by (fastforce simp: build_defs DiscordChannel_init_def
        split: option.splits if_splits outcome.splits)

lemma build_member_found_no_name:
  "not_name name \<Longrightarrow> guild_of s = Some g \<Longrightarrow> get_member p g i = Returns (Some m) \<Longrightarrow>
   fst (DiscordMember_build p i name (Some s))
     = Inr (DiscordMember_init i (member_name m) (Some g) (Some m))"
  by (simp add: DiscordMember_build_def resolve_member_found)

lemma build_channel_found_no_name:
  "not_name name \<Longrightarrow> guild_of s = Some g \<Longrightarrow> get_channel p g i = Returns (Some c) \<Longrightarrow>
   fst (DiscordChannel_build p i name is_dm (Some s))
     = Inr (DiscordChannel_init i (channel_name c) (derive_is_dm is_dm (Some c)) (Some g) (Some c))"
  by (simp add: DiscordChannel_build_def resolve_channel_found)

lemma build_empty_name_eq:
  "DiscordMember_build p i (Some []) cg = DiscordMember_build p i None cg"
  "DiscordChannel_build p i (Some []) is_dm cg = DiscordChannel_build p i None is_dm cg"
  unfolding DiscordMember_build_def DiscordChannel_build_def not_name_simps(1,2) if_True
  by simp_all

text \<open>
  Claim C9, as stated, fails in its last part: a successful \<open>build\<close> can return a
  record whose name is the empty string that was supplied. \<open>build(42, '', guildX)\<close>,
  where the lookup returns a live member whose name is empty, succeeds with the empty
  name.
\<close>

theorem build_empty_name_from_nameless_member:
  "fst (DiscordMember_build blank_directory 42 (Some []) (Some (IsGuild guildX)))
     = Inr \<lparr>dm_id = 42, dm_name = [], dm__guild = None, dm__member = None\<rparr>"
  by (simp add: build_defs blank_directory_def guild_of_def not_name_def nameless_def
        DiscordMember_init_def)

text \<open>
  Claim C9, amended. \<open>build\<close> treats the empty string as it treats an absent name: the
  two calls return the same result and have the same effects, for every scope context.
  So with no scope context the empty name leads to the error of lines 56 and 121; with
  a scope context whose scope is \<open>g\<close> it leads to the fallback, where a live object found
  in \<open>g\<close> gives the record its name and a lookup that finds nothing leads to the error of
  lines 64 and 129. Whenever \<open>build\<close> succeeds on the empty name, the record's name is the
  name of the live object that the lookup in the given scope returned; so it is not the
  empty string provided that every such live object has a name that is not empty. This
  holds for the member and for the channel variant.
\<close>

theorem build_empty_name_as_absent:
  "DiscordMember_build p i (Some []) cg = DiscordMember_build p i None cg
 \<and> DiscordChannel_build p i (Some []) is_dm cg = DiscordChannel_build p i None is_dm cg
 \<and> DiscordMember_build p i (Some []) None = (Inl (no_guild_error ''user'' i), [])
 \<and> DiscordChannel_build p i (Some []) is_dm None = (Inl (no_guild_error ''channel'' i), [])
 \<and> (guild_of s = Some g \<and> get_member p g i = Returns (Some m) \<longrightarrow>
       (\<exists>r. fst (DiscordMember_build p i (Some []) (Some s)) = Inr r
            \<and> dm_name r = member_name m))
 \<and> (guild_of s = Some g \<and> get_channel p g i = Returns (Some c) \<longrightarrow>
       (\<exists>r. fst (DiscordChannel_build p i (Some []) is_dm (Some s)) = Inr r
            \<and> dc_name r = channel_name c))
 \<and> (guild_of s = Some g \<and> signals_not_found (get_member p g i) \<longrightarrow>
       fst (DiscordMember_build p i (Some []) (Some s))
         = Inl (unresolved_error ''member'' i (context_of s)))
 \<and> (guild_of s = Some g \<and> signals_not_found (get_channel p g i) \<longrightarrow>
       fst (DiscordChannel_build p i (Some []) is_dm (Some s))
         = Inl (unresolved_error ''channel'' i (context_of s)))
 \<and> (fst (DiscordMember_build p i (Some []) cg) = Inr rm \<longrightarrow>
       (\<exists>s' g' m'. cg = Some s' \<and> guild_of s' = Some g'
                  \<and> get_member p g' i = Returns (Some m') \<and> dm_name rm = member_name m'))
 \<and> (fst (DiscordChannel_build p i (Some []) is_dm cg) = Inr rc \<longrightarrow>
       (\<exists>s' g' c'. cg = Some s' \<and> guild_of s' = Some g'
                  \<and> get_channel p g' i = Returns (Some c') \<and> dc_name rc = channel_name c'))
 \<and> ((\<forall>s' g' m'. cg = Some s' \<and> guild_of s' = Some g'
                  \<and> get_member p g' i = Returns (Some m') \<longrightarrow> member_name m' \<noteq> [])
      \<and> fst (DiscordMember_build p i (Some []) cg) = Inr rm \<longrightarrow> dm_name rm \<noteq> [])
 \<and> ((\<forall>s' g' c'. cg = Some s' \<and> guild_of s' = Some g'
                  \<and> get_channel p g' i = Returns (Some c') \<longrightarrow> channel_name c' \<noteq> [])
      \<and> fst (DiscordChannel_build p i (Some []) is_dm cg) = Inr rc \<longrightarrow> dc_name rc \<noteq> [])"
proof -
  have empty: "not_name (Some [])"
    by (simp add: not_name_def)
  have no_scope:
    "DiscordMember_build p i (Some []) None = (Inl (no_guild_error ''user'' i), [])"
    "DiscordChannel_build p i (Some []) is_dm None = (Inl (no_guild_error ''channel'' i), [])"
    by (simp_all add: DiscordMember_build_def DiscordChannel_build_def not_name_def)
  have found_m: "\<exists>r. fst (DiscordMember_build p i (Some []) (Some s)) = Inr r
                    \<and> dm_name r = member_name m"
    if "guild_of s = Some g" "get_member p g i = Returns (Some m)"
    using build_member_found_no_name [OF empty that] by (simp add: DiscordMember_init_def)
  have found_c: "\<exists>r. fst (DiscordChannel_build p i (Some []) is_dm (Some s)) = Inr r
                    \<and> dc_name r = channel_name c"
    if "guild_of s = Some g" "get_channel p g i = Returns (Some c)"
    using build_channel_found_no_name [OF empty that] by (simp add: DiscordChannel_init_def)
  have lost_m: "fst (DiscordMember_build p i (Some []) (Some s))
                  = Inl (unresolved_error ''member'' i (context_of s))"
    if "guild_of s = Some g" "signals_not_found (get_member p g i)"
    using that
    by (auto simp: build_defs signals_not_found_def not_name_def
             split: outcome.splits option.splits)
  have lost_c: "fst (DiscordChannel_build p i (Some []) is_dm (Some s))
                  = Inl (unresolved_error ''channel'' i (context_of s))"
    if "guild_of s = Some g" "signals_not_found (get_channel p g i)"
    using that
    by (auto simp: build_defs signals_not_found_def not_name_def
             split: outcome.splits option.splits)
  note live_m = build_member_success_from_live [OF empty, of p i cg rm]
  note live_c = build_channel_success_from_live [OF empty, of p i is_dm cg rc]
  have named_m: "dm_name rm \<noteq> []"
    if "\<forall>s' g' m'. cg = Some s' \<and> guild_of s' = Some g'
                  \<and> get_member p g' i = Returns (Some m') \<longrightarrow> member_name m' \<noteq> []"
       "fst (DiscordMember_build p i (Some []) cg) = Inr rm"
    using live_m [OF that(2)] that(1) by auto
  have named_c: "dc_name rc \<noteq> []"
    if "\<forall>s' g' c'. cg = Some s' \<and> guild_of s' = Some g'
                  \<and> get_channel p g' i = Returns (Some c') \<longrightarrow> channel_name c' \<noteq> []"
       "fst (DiscordChannel_build p i (Some []) is_dm cg) = Inr rc"
    using live_c [OF that(2)] that(1) by auto
  have eqs: "DiscordMember_build p i (Some []) cg = DiscordMember_build p i None cg"
            "DiscordChannel_build p i (Some []) is_dm cg = DiscordChannel_build p i None is_dm cg"
    by (rule build_empty_name_eq)+
  show ?thesis
    apply (intro conjI impI)
    subgoal by (rule eqs(1))
    subgoal by (rule eqs(2))
    subgoal by (rule no_scope(1))
    subgoal by (rule no_scope(2))
    subgoal using found_m by blast
    subgoal using found_c by blast
    subgoal using lost_m by blast
    subgoal using lost_c by blast
    subgoal using live_m by blast
    subgoal using live_c by blast
    subgoal using named_m by blast
    subgoal using named_c by blast
    done
qed

text \<open>
  With the empty name, id 42 (a known member, no such channel) and id 5 (a known
  channel, no such member) in \<open>guildX\<close>. The live objects \<open>alice\<close> and \<open>general\<close> have
  names, so the records built from them have.
\<close>

theorem build_empty_name_as_absent_witness:
  "guild_of (IsGuild guildX) = Some guildX
 \<and> get_member directory guildX 42 = Returns (Some alice)
 \<and> signals_not_found (get_channel directory guildX 42)
 \<and> get_channel directory guildX 5 = Returns (Some general)
 \<and> signals_not_found (get_member directory guildX 5)
 \<and> fst (DiscordMember_build directory 42 (Some []) (Some (IsGuild guildX)))
      = Inr \<lparr>dm_id = 42, dm_name = ''alice'', dm__guild = None, dm__member = None\<rparr>
 \<and> dm_name \<lparr>dm_id = 42, dm_name = ''alice'', dm__guild = None, dm__member = None\<rparr> \<noteq> []
 \<and> fst (DiscordChannel_build directory 42 (Some []) None (Some (IsGuild guildX)))
      = Inl (unresolved_error ''channel'' 42 None)
 \<and> fst (DiscordChannel_build directory 5 (Some []) None (Some (IsGuild guildX)))
      = Inr \<lparr>dc_id = 5, dc_name = ''general'', dc_is_dm = Some False, dc__guild = None,
             dc__channel = None\<rparr>
 \<and> dc_name \<lparr>dc_id = 5, dc_name = ''general'', dc_is_dm = Some False, dc__guild = None,
             dc__channel = None\<rparr> \<noteq> []
 \<and> fst (DiscordMember_build directory 5 (Some []) (Some (IsGuild guildX)))
      = Inl (unresolved_error ''member'' 5 None)"
proof -
  have scope: "guild_of (IsGuild guildX) = Some guildX"
    by (simp add: guild_of_def)
  have at42: "get_member directory guildX 42 = Returns (Some alice)"
             "signals_not_found (get_channel directory guildX 42)"
    by (simp_all add: directory_def signals_not_found_def)
  have at5: "get_channel directory guildX 5 = Returns (Some general)"
            "signals_not_found (get_member directory guildX 5)"
    by (simp_all add: directory_def signals_not_found_def)
  have live_m:
    "\<forall>s' g' m'. Some (IsGuild guildX) = Some s' \<and> guild_of s' = Some g'
                \<and> get_member directory g' 42 = Returns (Some m') \<longrightarrow> member_name m' \<noteq> []"
    by (auto simp: directory_def alice_def)
  have live_c:
    "\<forall>s' g' c'. Some (IsGuild guildX) = Some s' \<and> guild_of s' = Some g'
                \<and> get_channel directory g' 5 = Returns (Some c') \<longrightarrow> channel_name c' \<noteq> []"
    by (auto simp: directory_def general_def)
  have built_m:
    "fst (DiscordMember_build directory 42 (Some []) (Some (IsGuild guildX)))
       = Inr \<lparr>dm_id = 42, dm_name = ''alice'', dm__guild = None, dm__member = None\<rparr>"
    by (simp add: build_defs directory_def guild_of_def not_name_def alice_def
          DiscordMember_init_def)
  have built_c:
    "fst (DiscordChannel_build directory 5 (Some []) None (Some (IsGuild guildX)))
       = Inr \<lparr>dc_id = 5, dc_name = ''general'', dc_is_dm = Some False, dc__guild = None,
              dc__channel = None\<rparr>"
    by (simp add: build_defs directory_def guild_of_def not_name_def general_def
          DiscordChannel_init_def derive_is_dm_def)
  note at_42 = build_empty_name_as_absent
                 [where p = directory and i = 42 and cg = "Some (IsGuild guildX)"
                    and is_dm = None and s = "IsGuild guildX" and g = guildX and m = alice
                    and c = general
                    and rm = "\<lparr>dm_id = 42, dm_name = ''alice'', dm__guild = None,
                               dm__member = None\<rparr>"]
  note at_5 = build_empty_name_as_absent
                [where p = directory and i = 5 and cg = "Some (IsGuild guildX)"
                   and is_dm = None and s = "IsGuild guildX" and g = guildX and m = alice
                   and c = general
                   and rc = "\<lparr>dc_id = 5, dc_name = ''general'', dc_is_dm = Some False,
                              dc__guild = None, dc__channel = None\<rparr>"]
  have named_m:
    "dm_name \<lparr>dm_id = 42, dm_name = ''alice'', dm__guild = None, dm__member = None\<rparr> \<noteq> []"
    using at_42 live_m built_m by blast
  have channel_42: "fst (DiscordChannel_build directory 42 (Some []) None (Some (IsGuild guildX)))
                      = Inl (unresolved_error ''channel'' 42 (context_of (IsGuild guildX)))"
    using at_42 scope at42 by blast
  have named_c:
    "dc_name \<lparr>dc_id = 5, dc_name = ''general'', dc_is_dm = Some False, dc__guild = None,
              dc__channel = None\<rparr> \<noteq> []"
    using at_5 live_c built_c by blast
  have member_5: "fst (DiscordMember_build directory 5 (Some []) (Some (IsGuild guildX)))
                    = Inl (unresolved_error ''member'' 5 (context_of (IsGuild guildX)))"
    using at_5 scope at5 by blast
  from built_m named_m channel_42 built_c named_c member_5 scope at42 at5
  show ?thesis
    by (simp add: context_of_def)
qed

subsection \<open>The name of a constructed record\<close>

text \<open>
  Claim C6, as stated, fails: \<open>from_member\<close> copies the name of the live object without
  looking at it, so a live object whose name is the empty string gives a record whose
  name is empty.
\<close>

theorem from_member_empty_name:
  "dm_name (DiscordMember_from_member
              \<lparr>member_id = 42, member_name = [], member_guild = None,
               member_mention = ''<@42>''\<rparr>) = []"
  by (simp add: DiscordMember_from_member_def DiscordMember_init_def)

text \<open>
  Claim C6, amended. The name of a record is not empty provided that the live object it
  is copied from has a name that is not empty. For \<open>build\<close> that object is the one the
  lookup in the given scope returns, and its name is used only when no name is
  supplied: if every such object has a name that is not empty, every record returned
  by a successful \<open>build\<close> has one. For \<open>from_member\<close> and \<open>from_channel\<close> it is the
  wrapped object.
\<close>

theorem name_nonempty_if_live_name_nonempty:
  assumes "\<forall>s g m. not_name name \<and> cg = Some s \<and> guild_of s = Some g
                   \<and> get_member p g i = Returns (Some m) \<longrightarrow> member_name m \<noteq> []"
      and "\<forall>s g c. not_name name \<and> cg = Some s \<and> guild_of s = Some g
                   \<and> get_channel p g i = Returns (Some c) \<longrightarrow> channel_name c \<noteq> []"
  shows "(fst (DiscordMember_build p i name cg) = Inr r \<longrightarrow> dm_name r \<noteq> [])
       \<and> (fst (DiscordChannel_build p i name is_dm cg) = Inr rc \<longrightarrow> dc_name rc \<noteq> [])
       \<and> (member_name m \<noteq> [] \<longrightarrow> dm_name (DiscordMember_from_member m) \<noteq> [])
       \<and> (channel_name c \<noteq> [] \<longrightarrow> dc_name (DiscordChannel_from_channel c) \<noteq> [])"
proof -
  have build_m: "dm_name r \<noteq> []" if "fst (DiscordMember_build p i name cg) = Inr r"
    using that assms(1)
    by (auto simp: build_defs not_name_def DiscordMember_init_def
             split: option.splits if_splits outcome.splits)
  have build_c: "dc_name rc \<noteq> []" if "fst (DiscordChannel_build p i name is_dm cg) = Inr rc"
    using that assms(2)
    by (auto simp: build_defs not_name_def DiscordChannel_init_def
             split: option.splits if_splits outcome.splits)
  have wrap: "dm_name (DiscordMember_from_member m) = member_name m"
             "dc_name (DiscordChannel_from_channel c) = channel_name c"
    by (simp_all add: DiscordMember_from_member_def DiscordMember_init_def
          DiscordChannel_from_channel_def DiscordChannel_init_def)
  from build_m build_c wrap show ?thesis
    by simp
qed

text \<open>
  The live objects that \<open>directory\<close> returns for the ids 42 and 5 have names, which
  discharges the assumption at both ids. Building member 42 and channel 5 in \<open>guildX\<close>
  without a name succeeds with the names \<open>alice\<close> and \<open>general\<close>, and wrapping the two
  live objects keeps these names.
\<close>

theorem name_nonempty_if_live_name_nonempty_witness:
  "fst (DiscordMember_build directory 42 None (Some (IsGuild guildX)))
      = Inr \<lparr>dm_id = 42, dm_name = ''alice'', dm__guild = None, dm__member = None\<rparr>
 \<and> dm_name \<lparr>dm_id = 42, dm_name = ''alice'', dm__guild = None, dm__member = None\<rparr> \<noteq> []
 \<and> fst (DiscordChannel_build directory 5 None None (Some (IsGuild guildX)))
      = Inr \<lparr>dc_id = 5, dc_name = ''general'', dc_is_dm = Some False, dc__guild = None,
             dc__channel = None\<rparr>
 \<and> dc_name \<lparr>dc_id = 5, dc_name = ''general'', dc_is_dm = Some False, dc__guild = None,
             dc__channel = None\<rparr> \<noteq> []
 \<and> member_name alice \<noteq> [] \<and> dm_name (DiscordMember_from_member alice) \<noteq> []
 \<and> channel_name general \<noteq> [] \<and> dc_name (DiscordChannel_from_channel general) \<noteq> []"
proof -
  have live42:
    "\<forall>s g m. not_name None \<and> Some (IsGuild guildX) = Some s \<and> guild_of s = Some g
             \<and> get_member directory g 42 = Returns (Some m) \<longrightarrow> member_name m \<noteq> []"
    "\<forall>s g c. not_name None \<and> Some (IsGuild guildX) = Some s \<and> guild_of s = Some g
             \<and> get_channel directory g 42 = Returns (Some c) \<longrightarrow> channel_name c \<noteq> []"
    by (auto simp: directory_def alice_def)
  have live5:
    "\<forall>s g m. not_name None \<and> Some (IsGuild guildX) = Some s \<and> guild_of s = Some g
             \<and> get_member directory g 5 = Returns (Some m) \<longrightarrow> member_name m \<noteq> []"
    "\<forall>s g c. not_name None \<and> Some (IsGuild guildX) = Some s \<and> guild_of s = Some g
             \<and> get_channel directory g 5 = Returns (Some c) \<longrightarrow> channel_name c \<noteq> []"
    by (auto simp: directory_def general_def)
  have built_m:
    "fst (DiscordMember_build directory 42 None (Some (IsGuild guildX)))
       = Inr \<lparr>dm_id = 42, dm_name = ''alice'', dm__guild = None, dm__member = None\<rparr>"
    by (simp add: build_defs directory_def guild_of_def not_name_def alice_def
          DiscordMember_init_def)
  have built_c:
    "fst (DiscordChannel_build directory 5 None None (Some (IsGuild guildX)))
       = Inr \<lparr>dc_id = 5, dc_name = ''general'', dc_is_dm = Some False, dc__guild = None,
              dc__channel = None\<rparr>"
    by (simp add: build_defs directory_def guild_of_def not_name_def general_def
          DiscordChannel_init_def derive_is_dm_def)
  have names: "member_name alice \<noteq> []" "channel_name general \<noteq> []"
    by (simp_all add: alice_def general_def)
  from name_nonempty_if_live_name_nonempty
         [OF live42, where m = alice
            and r = "\<lparr>dm_id = 42, dm_name = ''alice'', dm__guild = None, dm__member = None\<rparr>"]
       name_nonempty_if_live_name_nonempty
         [OF live5, where is_dm = None and c = general
            and rc = "\<lparr>dc_id = 5, dc_name = ''general'', dc_is_dm = Some False,
                       dc__guild = None, dc__channel = None\<rparr>"]
       built_m built_c names
  show ?thesis
    by blast
qed

subsection \<open>What a constructed record keeps of the live object\<close>

text \<open>
  The accessors do read the private attributes: on an object that has a live reference,
  \<open>mention\<close> is the mention string of the live object and the accessor returns it.
\<close>

lemma mention_of_live_reference:
  "dm__member r = Some m \<Longrightarrow> DiscordMember_mention r = member_mention m"
  "dc__channel rc = Some c \<Longrightarrow> DiscordChannel_mention rc = channel_mention c"
  by (simp_all add: DiscordMember_mention_def DiscordChannel_mention_def)

text \<open>
  The constructors never set them: whatever is passed for the \<open>InitVar\<close> parameters, the
  new object has no live reference and no scope, and its \<open>mention\<close> is its name.
\<close>

lemma init_keeps_no_reference:
  "DiscordMember_member (DiscordMember_init i n g m) = None"
  "DiscordMember_guild (DiscordMember_init i n g m) = None"
  "DiscordMember_mention (DiscordMember_init i n g m) = n"
  "DiscordChannel_channel (DiscordChannel_init i n d g c) = None"
  "DiscordChannel_guild (DiscordChannel_init i n d g c) = None"
  "DiscordChannel_mention (DiscordChannel_init i n d g c) = n"
  by (simp_all add: DiscordMember_init_def DiscordMember_member_def DiscordMember_guild_def
        DiscordMember_mention_def DiscordChannel_init_def DiscordChannel_channel_def
        DiscordChannel_guild_def DiscordChannel_mention_def)

lemma build_member_mention_is_name:
  "fst (DiscordMember_build p i name cg) = Inr r \<Longrightarrow>
   DiscordMember_mention r = dm_name r \<and> DiscordMember_member r = None
   \<and> DiscordMember_guild r = None"
  by (auto simp: build_defs DiscordMember_init_def DiscordMember_mention_def
        DiscordMember_member_def DiscordMember_guild_def
      split: option.splits if_splits outcome.splits)

lemma build_channel_mention_is_name:
  "fst (DiscordChannel_build p i name is_dm cg) = Inr r \<Longrightarrow>
   DiscordChannel_mention r = dc_name r \<and> DiscordChannel_channel r = None
   \<and> DiscordChannel_guild r = None"
  by (auto simp: build_defs DiscordChannel_init_def DiscordChannel_mention_def
        DiscordChannel_channel_def DiscordChannel_guild_def
      split: option.splits if_splits outcome.splits)

lemma from_channel_is_dm:
  "dc_is_dm (DiscordChannel_from_channel c) = Some (channel_is_DMChannel c)"
  "dc_id (DiscordChannel_from_channel c) = channel_id c"
  "dc_name (DiscordChannel_from_channel c) = channel_name c"
  by (simp_all add: DiscordChannel_from_channel_def DiscordChannel_init_def)

lemma from_member_fields:
  "dm_id (DiscordMember_from_member m) = member_id m"
  "dm_name (DiscordMember_from_member m) = member_name m"
  by (simp_all add: DiscordMember_from_member_def DiscordMember_init_def)

text \<open>
  Claim C3 on the code. \<open>build(42, None, guildX)\<close>, where the lookup returns the live
  member \<open>alice\<close> whose mention string is \<open><@42>\<close>: \<open>build\<close> succeeds and the record's
  name is the live name \<open>alice\<close>, as the claim says; but the record's \<open>mention\<close> is the
  name \<open>alice\<close>, not the live mention string. With the name \<open>al\<close> supplied as well,
  \<open>mention\<close> is \<open>al\<close>.
\<close>

theorem build_mention_ignores_live_member:
  "get_member directory guildX 42 = Returns (Some alice)
 \<and> member_mention alice = ''<@42>''
 \<and> fst (DiscordMember_build directory 42 None (Some (IsGuild guildX)))
      = Inr \<lparr>dm_id = 42, dm_name = ''alice'', dm__guild = None, dm__member = None\<rparr>
 \<and> DiscordMember_mention
      \<lparr>dm_id = 42, dm_name = ''alice'', dm__guild = None, dm__member = None\<rparr> = ''alice''
 \<and> fst (DiscordMember_build directory 42 (Some ''al'') (Some (IsGuild guildX)))
      = Inr \<lparr>dm_id = 42, dm_name = ''al'', dm__guild = None, dm__member = None\<rparr>
 \<and> DiscordMember_mention
      \<lparr>dm_id = 42, dm_name = ''al'', dm__guild = None, dm__member = None\<rparr> = ''al''"
  by (simp add: build_defs directory_def guild_of_def not_name_def alice_def
        DiscordMember_init_def DiscordMember_mention_def)

text \<open>
  Claim C7 on the code. \<open>from_member(alice)\<close> and \<open>from_channel(channelY)\<close>, where
  \<open>alice\<close> belongs to \<open>guildX\<close> and \<open>channelY\<close> is a direct-message channel: id and name
  are copied and \<open>is_dm\<close> is \<open>True\<close>, as the claim says; but the record has no live
  reference, and the scope accessor of the member record returns nothing.
\<close>

theorem from_live_object_drops_live_reference:
  "member_guild alice = Some guildX
 \<and> DiscordMember_from_member alice
      = \<lparr>dm_id = 42, dm_name = ''alice'', dm__guild = None, dm__member = None\<rparr>
 \<and> DiscordMember_member (DiscordMember_from_member alice) = None
 \<and> DiscordMember_guild (DiscordMember_from_member alice) = None
 \<and> DiscordChannel_from_channel channelY
      = \<lparr>dc_id = 9, dc_name = ''alice'', dc_is_dm = Some True, dc__guild = None,
         dc__channel = None\<rparr>
 \<and> DiscordChannel_channel (DiscordChannel_from_channel channelY) = None"
  by (simp add: DiscordMember_from_member_def DiscordMember_init_def DiscordMember_member_def
        DiscordMember_guild_def alice_def DiscordChannel_from_channel_def
        DiscordChannel_init_def DiscordChannel_channel_def channelY_def)

text \<open>
  Claim C10 on the code. \<open>from_channel(general)\<close>, where the channel \<open>general\<close> belongs to
  \<open>guildX\<close>: the record stores no scope, as the claim says; but its scope accessor
  returns nothing, not the channel's own scope \<open>guildX\<close>. The member variant behaves
  alike: the scope accessor of \<open>from_member(alice)\<close> returns nothing.
\<close>

theorem from_channel_guild_accessor_nothing:
  "channel_guild general = Some guildX
 \<and> dc__guild (DiscordChannel_from_channel general) = None
 \<and> DiscordChannel_guild (DiscordChannel_from_channel general) = None
 \<and> member_guild alice = Some guildX
 \<and> dm__guild (DiscordMember_from_member alice) = None"
  by (simp add: DiscordChannel_from_channel_def DiscordChannel_init_def
        DiscordChannel_guild_def general_def DiscordMember_from_member_def
        DiscordMember_init_def alice_def)

end
